theory Spec2Isabelle
  imports Main
begin

section \<open>JavaScript values and data requests\<close>

text \<open>
  The client-side data layer of Site Kit (\<^verbatim>\<open>dataAPI\<close>): request normalisation
  (\<^verbatim>\<open>requestWithDateRange\<close>), the batch scheduler (\<^verbatim>\<open>combinedGet\<close>), the error
  classifier (\<^verbatim>\<open>handleWPError\<close>) and the resolver (\<^verbatim>\<open>resolve\<close>).

  Option values of a request's \<^verbatim>\<open>data\<close> object are JavaScript primitives.
\<close>

datatype jsval = JUndefined | JNull | JBool bool | JNum int | JStr string

type_synonym jsobj = "string \<rightharpoonup> jsval"

text \<open>
  A caller's callback is opaque code: the model keeps its identity and whether
  calling it throws.
\<close>

datatype callback = Callback (cb_id: nat) (cb_throws: bool)

text \<open>
  A data request object. \<open>'d\<close> is what the \<^verbatim>\<open>data\<close> property holds: the option
  object itself in the value-level model, an address in the store-level model.
  \<open>None\<close> in \<open>data\<close>, \<open>callback\<close> or \<open>key\<close> stands for an absent property
  (for \<open>callback\<close>: not a function). When \<^verbatim>\<open>data\<close> is present it is an object.
\<close>

record 'd request_of =
  type :: string
  identifier' :: string
  datapoint :: string
  data :: "'d option"
  maxAge :: int
  priority :: int
  callback :: "callback option"
  key :: "string option"

type_synonym request = "jsobj request_of"

text \<open>
  \<^verbatim>\<open>String.prototype.replace\<close> with a string pattern: the first occurrence of the
  pattern is replaced (the replacement \<^verbatim>\<open>'prev'\<close> has no \<^verbatim>\<open>$\<close> patterns).
\<close>

fun replace :: "string \<Rightarrow> string \<Rightarrow> string \<Rightarrow> string" where
  "replace pat rep [] = (if pat = [] then rep else [])"
| "replace pat rep (c # cs) =
     (if take (length pat) (c # cs) = pat then rep @ drop (length pat) (c # cs)
      else c # replace pat rep cs)"

text \<open>
  \<^verbatim>\<open>requestWithDateRange\<close>: \<^verbatim>\<open>{ data: {}, ...originalRequest }\<close>, then the placeholder
  branch with its early return, then \<^verbatim>\<open>{ dateRange, ...request.data }\<close>.
\<close>

definition requestWithDateRange :: "request \<Rightarrow> string \<Rightarrow> request" where
  "requestWithDateRange originalRequest dateRange =
     (let d = (case data originalRequest of None \<Rightarrow> Map.empty | Some d \<Rightarrow> d)
      in if d ''dateRange'' = Some (JStr ''prev-date-range-placeholder'')
         then originalRequest
                \<lparr>data := Some (d(''dateRange'' \<mapsto> JStr (replace ''last'' ''prev'' dateRange)))\<rparr>
         else originalRequest
                \<lparr>data := Some ([''dateRange'' \<mapsto> JStr dateRange] ++ d)\<rparr>)"

section \<open>The normaliser on a store of objects\<close>

text \<open>
  Whether the caller's objects are mutated is a question about object identity, so the
  normaliser is modelled a second time over an explicit store: request objects and
  option objects live at addresses, a request's \<^verbatim>\<open>data\<close> property holds the
  address of its option object, an object literal allocates at the next free address
  and a property assignment updates the object at an address.
\<close>

datatype exn = TypeError | Dangling | CallbackError nat

record store =
  requests :: "nat request_of list"
  objects :: "jsobj list"

definition new_object :: "store \<Rightarrow> jsobj \<Rightarrow> nat \<times> store" where
  "new_object hp ob = (length (objects hp), hp\<lparr>objects := objects hp @ [ob]\<rparr>)"

definition new_request :: "store \<Rightarrow> nat request_of \<Rightarrow> nat \<times> store" where
  "new_request hp ob = (length (requests hp), hp\<lparr>requests := requests hp @ [ob]\<rparr>)"

definition assign_data :: "store \<Rightarrow> nat \<Rightarrow> nat \<Rightarrow> store" where
  "assign_data hp request d =
     hp\<lparr>requests := (requests hp)[request := (requests hp ! request)\<lparr>data := Some d\<rparr>]\<rparr>"

definition assign_key :: "store \<Rightarrow> nat \<Rightarrow> string \<Rightarrow> store" where
  "assign_key hp request k =
     hp\<lparr>requests := (requests hp)[request := (requests hp ! request)\<lparr>key := Some k\<rparr>]\<rparr>"

text \<open>
  \<^verbatim>\<open>requestWithDateRange\<close> statement by statement. An address outside the store
  denotes no object; the model answers \<open>Dangling\<close> for a request address, or a
  \<^verbatim>\<open>data\<close> address of the request, that the store does not hold (no JavaScript
  value is such an address).
\<close>

definition requestWithDateRange_store ::
  "store \<Rightarrow> nat \<Rightarrow> string \<Rightarrow> exn + (nat \<times> store)" where
  "requestWithDateRange_store hp originalRequest dateRange =
     (if length (requests hp) \<le> originalRequest then Inl Dangling
      else if (case data (requests hp ! originalRequest) of
                 None \<Rightarrow> False | Some a \<Rightarrow> length (objects hp) \<le> a)
      then Inl Dangling
      else
        let (d0, hp1) = new_object hp Map.empty;
            orig = requests hp1 ! originalRequest;
            (request, hp2) =
               new_request hp1
                 (orig\<lparr>data := (case data orig of None \<Rightarrow> Some d0 | Some a \<Rightarrow> Some a)\<rparr>)
        in case data (requests hp2 ! request) of
             None \<Rightarrow> Inl TypeError
           | Some a \<Rightarrow>
               let request_data = objects hp2 ! a
               in if request_data ''dateRange'' = Some (JStr ''prev-date-range-placeholder'')
                  then
                    let prevDateRange = replace ''last'' ''prev'' dateRange;
                        (d1, hp3) =
                           new_object hp2
                             (request_data(''dateRange'' \<mapsto> JStr prevDateRange))
                    in Inr (request, assign_data hp3 request d1)
                  else
                    let (d1, hp3) =
                           new_object hp2
                             ([''dateRange'' \<mapsto> JStr dateRange] ++ request_data)
                    in Inr (request, assign_data hp3 request d1))"

text \<open>The request value that an address denotes: the object with its option object read in.\<close>

definition request_at :: "store \<Rightarrow> nat \<Rightarrow> request option" where
  "request_at hp a =
     (if length (requests hp) \<le> a then None
      else
        let r = requests hp ! a
        in case data r of
             None \<Rightarrow>
               Some \<lparr>type = type r, identifier' = identifier' r, datapoint = datapoint r,
                     data = None, maxAge = maxAge r, priority = priority r,
                     callback = callback r, key = key r\<rparr>
           | Some d \<Rightarrow>
               if length (objects hp) \<le> d then None
               else
                 Some \<lparr>type = type r, identifier' = identifier' r, datapoint = datapoint r,
                       data = Some (objects hp ! d), maxAge = maxAge r,
                       priority = priority r, callback = callback r, key = key r\<rparr>)"

section \<open>Results, the cache store and the effects of the data layer\<close>

text \<open>
  A per-key result of the batch endpoint: a success payload, or an error payload
  \<^verbatim>\<open>{ code, message, data: { status, reason?, reconnectURL? } }\<close>.
\<close>

datatype error_data =
  ErrorData (status: int) (reason: "string option") (reconnectURL: "string option")

datatype result =
  Payload jsval
| WPError (code: string) (message: string) (error_data: "error_data option")

text \<open>
  Modelled from the spec: \<^verbatim>\<open>isWPError\<close> (util/errors) is not among the sources. The
  wire contract gives each per-key result as either a success payload or an error
  payload; a result signals a service-side error exactly when it is the latter.
\<close>

fun isWPError :: "result \<Rightarrow> bool" where
  "isWPError (WPError c m d) = True"
| "isWPError (Payload v) = False"

text \<open>
  Modelled from the spec: \<^verbatim>\<open>getCache\<close> and \<^verbatim>\<open>setCache\<close> (./cache) are not among the
  sources. An entry records its value and its write time; a read with a maximum age
  answers the value only while \<open>now - storedAt < maxAge\<close>, and an expired entry is
  treated as absent.
\<close>

type_synonym cache_store = "string \<rightharpoonup> result \<times> int"

definition getCache :: "cache_store \<Rightarrow> int \<Rightarrow> string \<Rightarrow> int \<Rightarrow> result option" where
  "getCache store now' k age =
     (case store k of
        None \<Rightarrow> None
      | Some (v, storedAt) \<Rightarrow> if now' - storedAt < age then Some v else None)"

definition setCache :: "cache_store \<Rightarrow> int \<Rightarrow> string \<Rightarrow> result \<Rightarrow> cache_store" where
  "setCache store now' k v = store(k \<mapsto> (v, now'))"

text \<open>
  What the module imports and the sources do not hold is a parameter: the cache-key
  function \<^verbatim>\<open>getCacheKey\<close>, the selected date range and the clock.
\<close>

record env =
  getCacheKey :: "string \<Rightarrow> string \<Rightarrow> string \<Rightarrow> jsobj option \<Rightarrow> string"
  getCurrentDateRangeSlug :: string
  now :: int

datatype component = DashboardAuthScopesAlert | DashboardPermissionAlert | AuthError

datatype timer = ResolveFromCache request result | NextRound "request list"

text \<open>
  The calls the data layer makes to its collaborators, in program order:
  \<^verbatim>\<open>setTimeout\<close>, \<^verbatim>\<open>doAction\<close>, \<^verbatim>\<open>apiFetch\<close> (with the request list it carries),
  the console, \<^verbatim>\<open>trackAPIError\<close>, a caller's callback (with the result and the
  datapoint), \<^verbatim>\<open>addFilter\<close> of a notification component (hook, namespace, component,
  priority) and \<^verbatim>\<open>addFilter\<close> of the self-removing counter filter (hook, namespace,
  the amount it adds).
\<close>

datatype event =
  SetTimeout timer nat
| DoAction string string
| ApiFetch "request list"
| ConsoleError string
| ConsoleWarn string
| TrackAPIError string string string string result
| Invoke nat result string
| AddFilter string string component nat
| AddCountFilter string string nat

record state =
  maxRequests :: int
  cache :: cache_store
  events :: "event list"

definition emit :: "event \<Rightarrow> state \<Rightarrow> state" where
  "emit e st = st\<lparr>events := events st @ [e]\<rparr>"

text \<open>The module starts with \<^verbatim>\<open>maxRequests: 10\<close>.\<close>

definition dataAPI :: "cache_store \<Rightarrow> state" where
  "dataAPI store = \<lparr>maxRequests = 10, cache = store, events = []\<rparr>"

text \<open>Truthiness of an optional string property: present and not empty.\<close>

definition truthy :: "string option \<Rightarrow> bool" where
  "truthy s = (case s of None \<Rightarrow> False | Some v \<Rightarrow> v \<noteq> [])"

section \<open>The error classifier and the resolver\<close>

definition handleWPError ::
  "state \<Rightarrow> string \<Rightarrow> string \<Rightarrow> string \<Rightarrow> string \<Rightarrow> result \<Rightarrow> state" where
  "handleWPError st method' dp ty ident error =
     (let st0 = emit (TrackAPIError method' dp ty ident error)
                  (emit (ConsoleWarn ''WP Error in data response'') st)
      in case (case error of WPError c m d \<Rightarrow> d | Payload v \<Rightarrow> None) of
           None \<Rightarrow> st0
         | Some d \<Rightarrow>
             if \<not> truthy (reason d) \<and> \<not> truthy (reconnectURL d) then st0
             else
               let (st1, n1) =
                     (if reason d = Some ''authError'' \<or> reason d = Some ''insufficientPermissions''
                      then (emit (AddFilter ''googlesitekit.ErrorNotification''
                                    ''googlesitekit.AuthNotification'' DashboardAuthScopesAlert 1) st0,
                            Suc 0)
                      else (st0, 0));
                   (st2, n2) =
                     (if reason d = Some ''forbidden''
                      then (emit (AddFilter ''googlesitekit.ErrorNotification''
                                    ''googlesitekit.AuthNotification'' DashboardPermissionAlert 1) st1,
                            Suc n1)
                      else (st1, n1));
                   (st3, addedNoticeCount) =
                     (if truthy (reconnectURL d)
                      then (emit (AddFilter ''googlesitekit.ErrorNotification''
                                    ''googlesitekit.AuthNotification'' AuthError 1) st2,
                            Suc n2)
                      else (st2, n2))
               in if addedNoticeCount \<noteq> 0
                  then emit (AddCountFilter ''googlesitekit.TotalNotifications''
                               ''googlesitekit.AuthCountIncrease'' addedNoticeCount) st3
                  else st3)"

text \<open>
  \<^verbatim>\<open>resolve\<close> calls the callback when it is a function. There is no \<^verbatim>\<open>try\<close> around
  the call: an exception of the callback leaves \<^verbatim>\<open>resolve\<close>.
\<close>

definition resolve :: "state \<Rightarrow> request \<Rightarrow> result \<Rightarrow> exn \<times> state + state" where
  "resolve st request res =
     (case callback request of
        None \<Rightarrow> Inr st
      | Some cb \<Rightarrow>
          let st' = emit (Invoke (cb_id cb) res (datapoint request)) st
          in if cb_throws cb then Inl (CallbackError (cb_id cb), st') else Inr st')"

section \<open>The batch scheduler\<close>

text \<open>
  The property name that \<^verbatim>\<open>request.key\<close> selects in \<^verbatim>\<open>keyIndexesMap\<close>; an absent
  key reads as \<^verbatim>\<open>"undefined"\<close>. Cache keys are taken not to be member names of
  \<^verbatim>\<open>Object.prototype\<close>, so that the map starts empty.
\<close>

definition the_key :: "request \<Rightarrow> string" where
  "the_key request = (case key request of None \<Rightarrow> ''undefined'' | Some k \<Rightarrow> k)"

text \<open>The first two statements of the loop body: the normalised copy with its key.\<close>

definition keyedRequest :: "env \<Rightarrow> request \<Rightarrow> request" where
  "keyedRequest e originalRequest =
     (let request = requestWithDateRange originalRequest (getCurrentDateRangeSlug e)
      in request\<lparr>key := Some (getCacheKey e (type request) (identifier' request)
                                 (datapoint request) (data request))\<rparr>)"

text \<open>
  \<^verbatim>\<open>each( combinedRequest, ... )\<close>: a cache hit schedules its resolution and raises the
  delay by 25, a miss is pushed on \<^verbatim>\<open>dataRequest\<close>.
\<close>

fun each_combinedRequest ::
  "env \<Rightarrow> cache_store \<Rightarrow> request list \<Rightarrow> request list \<times> nat \<times> event list
     \<Rightarrow> request list \<times> nat \<times> event list" where
  "each_combinedRequest e store [] acc = acc"
| "each_combinedRequest e store (originalRequest # rest) (dataRequest, cacheDelay, evs) =
     (let request = keyedRequest e originalRequest
      in case getCache store (now e) (the_key request) (maxAge request) of
           Some cached \<Rightarrow>
             each_combinedRequest e store rest
               (dataRequest, cacheDelay + 25,
                evs @ [SetTimeout (ResolveFromCache request cached) cacheDelay])
         | None \<Rightarrow>
             each_combinedRequest e store rest (dataRequest @ [request], cacheDelay, evs))"

text \<open>
  \<^verbatim>\<open>each( dataRequest, ( request, index ) => ... )\<close>: defer, or record the first index of
  a key and push the request on \<^verbatim>\<open>toRequest\<close>, or push the index on the key's list.
\<close>

fun each_dataRequest ::
  "bool \<Rightarrow> bool \<Rightarrow> request list \<Rightarrow> nat
     \<Rightarrow> request list \<times> request list \<times> (string \<rightharpoonup> nat list)
     \<Rightarrow> request list \<times> request list \<times> (string \<rightharpoonup> nat list)" where
  "each_dataRequest secondaryRequest noLowPriorityRequests [] index acc = acc"
| "each_dataRequest secondaryRequest noLowPriorityRequests (request # rest) index
     (toRequest, deferredRequests, keyIndexesMap) =
     (if \<not> secondaryRequest \<and> 10 \<le> priority request \<and> noLowPriorityRequests
      then each_dataRequest secondaryRequest noLowPriorityRequests rest (Suc index)
             (toRequest, deferredRequests @ [request], keyIndexesMap)
      else
        case keyIndexesMap (the_key request) of
          None \<Rightarrow>
            each_dataRequest secondaryRequest noLowPriorityRequests rest (Suc index)
              (toRequest @ [request], deferredRequests,
               keyIndexesMap(the_key request \<mapsto> [index]))
        | Some idxs \<Rightarrow>
            each_dataRequest secondaryRequest noLowPriorityRequests rest (Suc index)
              (toRequest, deferredRequests,
               keyIndexesMap(the_key request \<mapsto> idxs @ [index])))"

text \<open>
  What the \<^verbatim>\<open>then\<close> handler of the network call closes over, and whether the
  \<^verbatim>\<open>setTimeout\<close> branch for the next round was taken.
\<close>

record batch =
  dataRequest :: "request list"
  keyIndexesMap :: "string \<rightharpoonup> nat list"
  toRequest :: "request list"
  deferredRequests :: "request list"
  currentRequest :: "request list"
  remainingDatapoints :: "request list"
  rescheduled :: bool

text \<open>
  \<^verbatim>\<open>combinedGet\<close> up to and including the call of \<^verbatim>\<open>apiFetch\<close>. \<open>None\<close> is the
  early return. \<^verbatim>\<open>sortBy\<close> of lodash is a stable ascending sort, as \<open>sort_key\<close> is.
  The \<^verbatim>\<open>datacache\<close> query argument of the path is left out.
\<close>

definition combinedGet ::
  "env \<Rightarrow> state \<Rightarrow> request list \<Rightarrow> bool \<Rightarrow> state \<times> batch option" where
  "combinedGet e st combinedRequest secondaryRequest =
     (let (queued, cacheDelay, evs) =
            each_combinedRequest e (cache st) combinedRequest ([], 25, []);
          st1 = st\<lparr>events := events st @ evs\<rparr>;
          dataRequest' = sort_key priority queued;
          noLowPriorityRequests = list_ex (\<lambda>request. priority request < 10) dataRequest';
          (toRequest', deferredRequests', keyIndexesMap') =
            each_dataRequest secondaryRequest noLowPriorityRequests dataRequest' 0
              ([], [], Map.empty);
          maxDatapointsPerRequest = 10;
          currentRequest' = take maxDatapointsPerRequest toRequest';
          remainingDatapoints' = drop maxDatapointsPerRequest toRequest' @ deferredRequests'
      in if currentRequest' = [] \<and> remainingDatapoints' = []
         then (emit (DoAction ''googlesitekit.dataLoaded'' ''cache'') st1, None)
         else
           let again = (remainingDatapoints' \<noteq> [] \<and> 0 < maxRequests st1);
               st2 = (if again
                      then emit (SetTimeout (NextRound remainingDatapoints') 50)
                             (st1\<lparr>maxRequests := maxRequests st1 - 1\<rparr>)
                      else st1\<lparr>maxRequests := 10\<rparr>)
           in (emit (ApiFetch currentRequest') st2,
               Some \<lparr>dataRequest = dataRequest', keyIndexesMap = keyIndexesMap',
                     toRequest = toRequest', deferredRequests = deferredRequests',
                     currentRequest = currentRequest',
                     remainingDatapoints = remainingDatapoints',
                     rescheduled = again\<rparr>))"

section \<open>Handling the response\<close>

text \<open>
  \<^verbatim>\<open>dataRequest[ keyIndexesMap[ key ] ]\<close>: the index list is used as a property name,
  so it is converted to a string: \<^verbatim>\<open>[ i ]\<close> names element \<open>i\<close>, while the empty
  list and a list of two or more indexes (\<^verbatim>\<open>"i,j"\<close>) name no element, and the read
  gives \<^verbatim>\<open>undefined\<close>.
\<close>

definition at_index_list :: "request list \<Rightarrow> nat list \<Rightarrow> request option" where
  "at_index_list xs idxs =
     (case idxs of
        [i] \<Rightarrow> if i < length xs then Some (xs ! i) else None
      | _ \<Rightarrow> None)"

text \<open>
  \<^verbatim>\<open>each( keyIndexesMap[ key ], ( index ) => ... )\<close>. An index outside
  \<^verbatim>\<open>dataRequest\<close> gives an undefined request: reading its key throws, and
  \<^verbatim>\<open>resolve\<close> does nothing for it.
\<close>

fun each_index ::
  "env \<Rightarrow> request list \<Rightarrow> bool \<Rightarrow> result \<Rightarrow> state \<Rightarrow> nat list \<Rightarrow> exn \<times> state + state" where
  "each_index e dataRequest' isError res st [] = Inr st"
| "each_index e dataRequest' isError res st (index # rest) =
     (if index < length dataRequest'
      then
        let request = dataRequest' ! index;
            st1 = (if \<not> isError
                   then st\<lparr>cache := setCache (cache st) (now e) (the_key request) res\<rparr>
                   else st)
        in case resolve st1 request res of
             Inl thrown \<Rightarrow> Inl thrown
           | Inr st2 \<Rightarrow> each_index e dataRequest' isError res st2 rest
      else if \<not> isError then Inl (TypeError, st)
      else each_index e dataRequest' isError res st rest)"

text \<open>The body of \<^verbatim>\<open>each( results, ( result, key ) => ... )\<close> for one response key.\<close>

definition each_result :: "env \<Rightarrow> batch \<Rightarrow> state \<Rightarrow> string \<times> result \<Rightarrow> exn \<times> state + state" where
  "each_result e b st kr =
     (let k = fst kr; res = snd kr
      in case keyIndexesMap b k of
           None \<Rightarrow> Inr (emit (ConsoleError (''unknown response key '' @ k)) st)
         | Some idxs \<Rightarrow>
             let isError = isWPError res
             in case (if isError
                      then (case at_index_list (dataRequest b) idxs of
                              None \<Rightarrow> Inl (TypeError, st)
                            | Some r \<Rightarrow>
                                Inr (handleWPError st ''POST'' (datapoint r) (type r)
                                       (identifier' r) res))
                      else Inr st) of
                  Inl thrown \<Rightarrow> Inl thrown
                | Inr st1 \<Rightarrow>
                    (case each_index e (dataRequest b) isError res st1 idxs of
                       Inl thrown \<Rightarrow> Inl thrown
                     | Inr st2 \<Rightarrow>
                         Inr (if remainingDatapoints b = []
                              then emit (DoAction ''googlesitekit.dataLoaded'' ''api'') st2
                              else st2)))"

fun each_results ::
  "env \<Rightarrow> batch \<Rightarrow> state \<Rightarrow> (string \<times> result) list \<Rightarrow> exn \<times> state + state" where
  "each_results e b st [] = Inr st"
| "each_results e b st (kr # rest) =
     (case each_result e b st kr of
        Inl thrown \<Rightarrow> Inl thrown
      | Inr st1 \<Rightarrow> each_results e b st1 rest)"

text \<open>
  The \<^verbatim>\<open>then\<close> handler followed by the \<^verbatim>\<open>catch\<close> handler: an exception thrown while
  the results are processed ends the processing and is logged.
\<close>

definition on_fulfilled :: "env \<Rightarrow> batch \<Rightarrow> state \<Rightarrow> (string \<times> result) list \<Rightarrow> state" where
  "on_fulfilled e b st results =
     (case each_results e b st results of
        Inl (err, st1) \<Rightarrow> emit (ConsoleWarn ''Error caught during combinedGet'') st1
      | Inr st1 \<Rightarrow> st1)"

definition on_rejected :: "state \<Rightarrow> state" where
  "on_rejected st = emit (ConsoleWarn ''Error caught during combinedGet'') st"

section \<open>Successive rounds\<close>

text \<open>
  The network answers a call with a mapping from keys to results, rejects it, or has
  not answered when the timer of the next round fires.
\<close>

datatype response = Fulfilled "(string \<times> result) list" | Rejected | Pending

definition deliver :: "env \<Rightarrow> (request list \<Rightarrow> response) \<Rightarrow> batch \<Rightarrow> state \<Rightarrow> state" where
  "deliver e net b st =
     (case net (currentRequest b) of
        Fulfilled results \<Rightarrow> on_fulfilled e b st results
      | Rejected \<Rightarrow> on_rejected st
      | Pending \<Rightarrow> st)"

text \<open>What an event list says: the network calls, the callback calls, the signals.\<close>

fun fetched :: "event \<Rightarrow> request list option" where
  "fetched (ApiFetch rs) = Some rs"
| "fetched ev = None"

fun invoked :: "event \<Rightarrow> (nat \<times> result \<times> string) option" where
  "invoked (Invoke c res dp) = Some (c, res, dp)"
| "invoked ev = None"

fun registered :: "event \<Rightarrow> component option" where
  "registered (AddFilter h ns c p) = Some c"
| "registered ev = None"



fun classified :: "event \<Rightarrow> result option" where
  "classified (TrackAPIError m dp ty ident err) = Some err"
| "classified ev = None"

text \<open>The state at the end of a computation, whether it returned or threw.\<close>

definition final :: "exn \<times> state + state \<Rightarrow> state" where
  "final r = (case r of Inl (x, s) \<Rightarrow> s | Inr s \<Rightarrow> s)"

section \<open>What a pass computes, in closed form\<close>


text \<open>The positions of the requests of this round that carry key \<open>k\<close>, in ascending order.\<close>

definition sharing :: "(request \<Rightarrow> bool) \<Rightarrow> request list \<Rightarrow> string \<Rightarrow> nat list" where
  "sharing dfr xs k = filter (\<lambda>i. \<not> dfr (xs ! i) \<and> the_key (xs ! i) = k) [0..<length xs]"

text \<open>The requests of this round that no earlier request of the round shares its key with.\<close>

definition first_occurrences :: "(request \<Rightarrow> bool) \<Rightarrow> request list \<Rightarrow> request list" where
  "first_occurrences dfr xs =
     map (\<lambda>i. xs ! i)
       (filter (\<lambda>i. \<not> dfr (xs ! i) \<and> sharing dfr (take i xs) (the_key (xs ! i)) = [])
          [0..<length xs])"

text \<open>The map from each key of the round to the positions of all requests that share it.\<close>

definition recorded :: "(request \<Rightarrow> bool) \<Rightarrow> request list \<Rightarrow> string \<rightharpoonup> nat list" where
  "recorded dfr xs k = (if sharing dfr xs k = [] then None else Some (sharing dfr xs k))"

text \<open>A keyed request that the cache store has no live entry for.\<close>

definition missed :: "env \<Rightarrow> cache_store \<Rightarrow> request \<Rightarrow> bool" where
  "missed e store request = (getCache store (now e) (the_key request) (maxAge request) = None)"


text \<open>The queue of a pass: the keyed requests without a cache hit, by ascending priority.\<close>

definition queue :: "env \<Rightarrow> state \<Rightarrow> request list \<Rightarrow> request list" where
  "queue e st combinedRequest =
     sort_key priority (filter (missed e (cache st)) (map (keyedRequest e) combinedRequest))"


section \<open>What the response handler owes\<close>



text \<open>The cache store after the result is written for each of the positions.\<close>

definition cached :: "env \<Rightarrow> request list \<Rightarrow> result \<Rightarrow> nat list \<Rightarrow> cache_store \<Rightarrow> cache_store" where
  "cached e dr res idxs store = fold (\<lambda>i c. setCache c (now e) (the_key (dr ! i)) res) idxs store"



section \<open>Example inputs\<close>

definition example_env :: env where
  "example_env =
     \<lparr>getCacheKey = (\<lambda>t i d x. t @ ''::'' @ i @ ''::'' @ d),
      getCurrentDateRangeSlug = ''last-28-days'', now = 1000\<rparr>"

definition example_request :: "string \<Rightarrow> int \<Rightarrow> callback option \<Rightarrow> request" where
  "example_request dp p cb =
     \<lparr>type = ''modules'', identifier' = ''analytics'', datapoint = dp, data = None,
      maxAge = 3600, priority = p, callback = cb, key = None\<rparr>"

section \<open>What a delivered response may change\<close>

text \<open>
  From state \<open>st\<close> to state \<open>s'\<close> no network call was added, and only keys of
  \<open>K\<close> entered the cache store.
\<close>

definition settled :: "string set \<Rightarrow> state \<Rightarrow> state \<Rightarrow> bool" where
  "settled K st s' \<longleftrightarrow>
     List.map_filter fetched (events s') = List.map_filter fetched (events st)
   \<and> dom (cache s') \<subseteq> dom (cache st) \<union> K"

section \<open>Theorems\<close>

lemma replace_prefix: "replace pat rep (pat @ rest) = rep @ rest"
proof (cases "pat @ rest")
  case Nil
  then show ?thesis by simp
next
  case (Cons c cs)
  have "take (length pat) (c # cs) = pat" "drop (length pat) (c # cs) = rest"
    unfolding Cons [symmetric] by simp_all
  then show ?thesis
    unfolding Cons by simp
qed

text \<open>
  C9. The normaliser fills \<^verbatim>\<open>data.dateRange\<close> with the current slug only when the
  caller supplied none (every other option and every other property is kept); when
  the caller supplied the placeholder, it is replaced by the slug with \<^verbatim>\<open>last\<close>
  turned into \<^verbatim>\<open>prev\<close>, and nothing else of the request changes: the result is the
  original request with exactly that one option rewritten.
\<close>

theorem C9_requestWithDateRange:
  fixes r :: request
  defines "d \<equiv> (case data r of None \<Rightarrow> Map.empty | Some d \<Rightarrow> d)"
  shows "(d ''dateRange'' = None \<longrightarrow>
            requestWithDateRange r slug = r\<lparr>data := Some (d(''dateRange'' \<mapsto> JStr slug))\<rparr>)
       \<and> (\<forall>v. d ''dateRange'' = Some v \<and> v \<noteq> JStr ''prev-date-range-placeholder'' \<longrightarrow>
            requestWithDateRange r slug = r\<lparr>data := Some d\<rparr>)
       \<and> (d ''dateRange'' = Some (JStr ''prev-date-range-placeholder'') \<longrightarrow>
            requestWithDateRange r (''last'' @ rest)
              = r\<lparr>data := Some (d(''dateRange'' \<mapsto> JStr (''prev'' @ rest)))\<rparr>
          \<and> requestWithDateRange r slug
              = r\<lparr>data := Some (d(''dateRange'' \<mapsto> JStr (replace ''last'' ''prev'' slug)))\<rparr>)"
proof -
  have fill: "d ''dateRange'' = None \<Longrightarrow> [''dateRange'' \<mapsto> JStr slug] ++ d = d(''dateRange'' \<mapsto> JStr slug)"
    by (rule ext) (auto simp: map_add_def split: option.splits)
  have keep: "d ''dateRange'' = Some v \<Longrightarrow> [''dateRange'' \<mapsto> JStr slug] ++ d = d" for v
    by (rule ext) (auto simp: map_add_def split: option.splits)
  have pre: "replace ''last'' ''prev'' (''last'' @ rest) = ''prev'' @ rest"
    by (rule replace_prefix)
  show ?thesis
    unfolding requestWithDateRange_def Let_def d_def [symmetric]
    using fill keep pre by auto
qed

theorem C9_requestWithDateRange_witness:
  "requestWithDateRange
     \<lparr>type = ''modules'', identifier' = ''analytics'', datapoint = ''report'', data = None,
      maxAge = 3600, priority = 1, callback = None, key = None\<rparr> ''last-28-days''
   = \<lparr>type = ''modules'', identifier' = ''analytics'', datapoint = ''report'',
      data = Some [''dateRange'' \<mapsto> JStr ''last-28-days''],
      maxAge = 3600, priority = 1, callback = None, key = None\<rparr>
 \<and> requestWithDateRange
     \<lparr>type = ''modules'', identifier' = ''analytics'', datapoint = ''report'',
      data = Some [''dateRange'' \<mapsto> JStr ''last-7-days''],
      maxAge = 3600, priority = 1, callback = None, key = None\<rparr> ''last-28-days''
   = \<lparr>type = ''modules'', identifier' = ''analytics'', datapoint = ''report'',
      data = Some [''dateRange'' \<mapsto> JStr ''last-7-days''],
      maxAge = 3600, priority = 1, callback = None, key = None\<rparr>
 \<and> requestWithDateRange
     \<lparr>type = ''modules'', identifier' = ''adsense'', datapoint = ''earnings'',
      data = Some [''dateRange'' \<mapsto> JStr ''prev-date-range-placeholder''],
      maxAge = 3600, priority = 1, callback = None, key = None\<rparr> ''last-28-days''
   = \<lparr>type = ''modules'', identifier' = ''adsense'', datapoint = ''earnings'',
      data = Some [''dateRange'' \<mapsto> JStr ''prev-28-days''],
      maxAge = 3600, priority = 1, callback = None, key = None\<rparr>"
  using
    C9_requestWithDateRange [of "\<lparr>type = ''modules'', identifier' = ''analytics'',
      datapoint = ''report'', data = None, maxAge = 3600, priority = 1, callback = None,
      key = None\<rparr>" "''last-28-days''" "[]"]
    C9_requestWithDateRange [of "\<lparr>type = ''modules'', identifier' = ''analytics'',
      datapoint = ''report'', data = Some [''dateRange'' \<mapsto> JStr ''last-7-days''],
      maxAge = 3600, priority = 1, callback = None, key = None\<rparr>" "''last-28-days''" "[]"]
    C9_requestWithDateRange [of "\<lparr>type = ''modules'', identifier' = ''adsense'',
      datapoint = ''earnings'',
      data = Some [''dateRange'' \<mapsto> JStr ''prev-date-range-placeholder''],
      maxAge = 3600, priority = 1, callback = None, key = None\<rparr>" "''last-28-days''"
      "''-28-days''"]
  by simp

lemma store_result:
  assumes "request_at hp a = Some r"
  shows "\<exists>ob. requestWithDateRange_store hp a slug =
           Inr (length (requests hp),
                \<lparr>requests = requests hp @ [(requests hp ! a)\<lparr>data := Some (Suc (length (objects hp)))\<rparr>],
                 objects = objects hp @ [Map.empty, ob]\<rparr>)
          \<and> data (requestWithDateRange r slug) = Some ob"
  using assms
  unfolding requestWithDateRange_store_def new_object_def new_request_def assign_data_def
    request_at_def requestWithDateRange_def Let_def
  by (auto simp: nth_append split: if_splits option.splits)

lemma normalised_fields:
  "type (requestWithDateRange r slug) = type r"
  "identifier' (requestWithDateRange r slug) = identifier' r"
  "datapoint (requestWithDateRange r slug) = datapoint r"
  "maxAge (requestWithDateRange r slug) = maxAge r"
  "priority (requestWithDateRange r slug) = priority r"
  "callback (requestWithDateRange r slug) = callback r"
  "key (requestWithDateRange r slug) = key r"
  by (simp_all add: requestWithDateRange_def Let_def)

text \<open>
  C10. Normalisation never mutates its input. For every request object of the store,
  \<^verbatim>\<open>requestWithDateRange\<close> returns the address of a fresh request object whose
  \<^verbatim>\<open>data\<close> is a fresh option object; it denotes the normalised request; and every
  object the store held before (the caller's request and its \<^verbatim>\<open>data\<close> among them)
  is unchanged, also after the cache key is assigned to the copy.
\<close>

theorem C10_normaliser_does_not_mutate:
  assumes wf: "request_at hp a = Some r"
  shows "\<exists>a' hp'. requestWithDateRange_store hp a slug = Inr (a', hp')
       \<and> length (requests hp) \<le> a' \<and> a' < length (requests hp')
       \<and> (\<exists>d'. data (requests hp' ! a') = Some d'
               \<and> length (objects hp) \<le> d' \<and> d' < length (objects hp'))
       \<and> request_at hp' a' = Some (requestWithDateRange r slug)
       \<and> request_at (assign_key hp' a' k) a' = Some ((requestWithDateRange r slug)\<lparr>key := Some k\<rparr>)
       \<and> (\<forall>b rb. request_at hp b = Some rb \<longrightarrow>
              request_at hp' b = Some rb \<and> request_at (assign_key hp' a' k) b = Some rb)
       \<and> take (length (requests hp)) (requests (assign_key hp' a' k)) = requests hp
       \<and> take (length (objects hp)) (objects (assign_key hp' a' k)) = objects hp"
proof -
  obtain ob where res: "requestWithDateRange_store hp a slug =
           Inr (length (requests hp),
                \<lparr>requests = requests hp @ [(requests hp ! a)\<lparr>data := Some (Suc (length (objects hp)))\<rparr>],
                 objects = objects hp @ [Map.empty, ob]\<rparr>)"
    and ob: "data (requestWithDateRange r slug) = Some ob"
    using store_result [OF wf] by blast
  define a' where "a' = length (requests hp)"
  define hp' where "hp' = \<lparr>requests = requests hp @ [(requests hp ! a)\<lparr>data := Some (Suc (length (objects hp)))\<rparr>],
                 objects = objects hp @ [Map.empty, ob]\<rparr>"
  have a: "a < length (requests hp)"
    using wf by (auto simp: request_at_def split: if_splits)
  have fields: "type (requests hp ! a) = type r" "identifier' (requests hp ! a) = identifier' r"
    "datapoint (requests hp ! a) = datapoint r" "maxAge (requests hp ! a) = maxAge r"
    "priority (requests hp ! a) = priority r" "callback (requests hp ! a) = callback r"
    "key (requests hp ! a) = key r"
    using wf by (auto simp: request_at_def Let_def split: if_splits option.splits)
  have new: "request_at hp' a' = Some (requestWithDateRange r slug)"
    using ob fields normalised_fields [of r slug]
    by (cases "requestWithDateRange r slug")
       (simp add: request_at_def hp'_def a'_def Let_def nth_append)
  have new_key: "request_at (assign_key hp' a' k) a' = Some ((requestWithDateRange r slug)\<lparr>key := Some k\<rparr>)"
    using ob fields normalised_fields [of r slug]
    by (cases "requestWithDateRange r slug")
       (simp add: request_at_def assign_key_def hp'_def a'_def Let_def nth_append)
  have old: "request_at hp' b = Some rb \<and> request_at (assign_key hp' a' k) b = Some rb"
    if "request_at hp b = Some rb" for b rb
    using that
    by (auto simp: request_at_def assign_key_def hp'_def a'_def Let_def nth_append
             split: if_splits option.splits)
  have frame: "take (length (requests hp)) (requests (assign_key hp' a' k)) = requests hp"
    "take (length (objects hp)) (objects (assign_key hp' a' k)) = objects hp"
    by (simp_all add: assign_key_def hp'_def a'_def)
  have fresh: "length (requests hp) \<le> a'" "a' < length (requests hp')"
    "\<exists>d'. data (requests hp' ! a') = Some d'
               \<and> length (objects hp) \<le> d' \<and> d' < length (objects hp')"
    by (simp_all add: hp'_def a'_def)
  show ?thesis
    using res new new_key old frame fresh unfolding hp'_def [symmetric] a'_def [symmetric]
    by blast
qed


theorem C10_normaliser_does_not_mutate_witness:
  "request_at
     \<lparr>requests = [\<lparr>type = ''modules'', identifier' = ''analytics'', datapoint = ''report'',
                    data = Some 0, maxAge = 3600, priority = 1, callback = None,
                    key = None\<rparr>],
      objects = [[''url'' \<mapsto> JStr ''/'']]\<rparr> 0
   = Some \<lparr>type = ''modules'', identifier' = ''analytics'', datapoint = ''report'',
            data = Some [''url'' \<mapsto> JStr ''/''], maxAge = 3600, priority = 1,
            callback = None, key = None\<rparr>
 \<and> (\<exists>a' hp'.
       requestWithDateRange_store
         \<lparr>requests = [\<lparr>type = ''modules'', identifier' = ''analytics'',
                        datapoint = ''report'', data = Some 0, maxAge = 3600, priority = 1,
                        callback = None, key = None\<rparr>],
          objects = [[''url'' \<mapsto> JStr ''/'']]\<rparr> 0 ''last-28-days'' = Inr (a', hp')
     \<and> request_at (assign_key hp' a' ''k'') 0
         = Some \<lparr>type = ''modules'', identifier' = ''analytics'', datapoint = ''report'',
                  data = Some [''url'' \<mapsto> JStr ''/''], maxAge = 3600, priority = 1,
                  callback = None, key = None\<rparr>)"
proof -
  have h: "request_at
     \<lparr>requests = [\<lparr>type = ''modules'', identifier' = ''analytics'', datapoint = ''report'',
                    data = Some 0, maxAge = 3600, priority = 1, callback = None,
                    key = None\<rparr>],
      objects = [[''url'' \<mapsto> JStr ''/'']]\<rparr> 0
   = Some \<lparr>type = ''modules'', identifier' = ''analytics'', datapoint = ''report'',
            data = Some [''url'' \<mapsto> JStr ''/''], maxAge = 3600, priority = 1,
            callback = None, key = None\<rparr>"
    by (simp add: request_at_def)
  from C10_normaliser_does_not_mutate [OF h, of "''last-28-days''" "''k''"] h
  show ?thesis by blast
qed

section \<open>What the response handler leaves alone\<close>

lemma final_simps [simp]: "final (Inl (x, s)) = s" "final (Inr s) = s"
  by (simp_all add: final_def)

lemma emit_simps [simp]:
  "maxRequests (emit ev st) = maxRequests st"
  "cache (emit ev st) = cache st"
  "events (emit ev st) = events st @ [ev]"
  by (simp_all add: emit_def)

lemma handleWPError_frame [simp]:
  "maxRequests (handleWPError st m dp ty ident err) = maxRequests st"
  "cache (handleWPError st m dp ty ident err) = cache st"
  by (simp_all add: handleWPError_def Let_def split: option.splits result.splits)

lemma resolve_maxRequests [simp]:
  "maxRequests (final (resolve st r res)) = maxRequests st"
  by (simp add: resolve_def Let_def split: option.splits)

lemma each_index_maxRequests [simp]:
  "maxRequests (final (each_index e dr isError res st idxs)) = maxRequests st"
proof (induction idxs arbitrary: st)
  case Nil
  then show ?case by simp
next
  case (Cons i idxs)
  show ?case
  proof (cases "i < length dr")
    case True
    define st1 where "st1 = (if \<not> isError
                   then st\<lparr>cache := setCache (cache st) (now e) (the_key (dr ! i)) res\<rparr>
                   else st)"
    have m1: "maxRequests st1 = maxRequests st" by (simp add: st1_def)
    show ?thesis
    proof (cases "resolve st1 (dr ! i) res")
      case (Inl thrown)
      then show ?thesis
        using True resolve_maxRequests [of st1 "dr ! i" res] m1
        by (cases thrown) (simp add: st1_def [symmetric] Let_def)
    next
      case (Inr st2)
      then show ?thesis
        using True resolve_maxRequests [of st1 "dr ! i" res] m1 Cons.IH [of st2]
        by (simp add: st1_def [symmetric] Let_def)
    qed
  next
    case False
    then show ?thesis using Cons.IH [of st] by (cases isError) simp_all
  qed
qed

lemma each_index_maxRequests_Inl:
  "each_index e dr isError res st idxs = Inl (x, s') \<Longrightarrow> maxRequests s' = maxRequests st"
  using each_index_maxRequests [of e dr isError res st idxs] by simp

lemma each_index_maxRequests_Inr:
  "each_index e dr isError res st idxs = Inr s' \<Longrightarrow> maxRequests s' = maxRequests st"
  using each_index_maxRequests [of e dr isError res st idxs] by simp

lemma each_result_maxRequests [simp]:
  "maxRequests (final (each_result e b st kr)) = maxRequests st"
  unfolding each_result_def Let_def
  by (auto split: option.splits sum.splits if_splits
           dest!: each_index_maxRequests_Inl each_index_maxRequests_Inr)

lemma each_results_maxRequests:
  "maxRequests (final (each_results e b st results)) = maxRequests st"
proof (induction results arbitrary: st)
  case Nil
  then show ?case by simp
next
  case (Cons kr results)
  show ?case
  proof (cases "each_result e b st kr")
    case (Inl thrown)
    then show ?thesis
      using each_result_maxRequests [of e b st kr] by (cases thrown) simp
  next
    case (Inr st1)
    then show ?thesis
      using each_result_maxRequests [of e b st kr] Cons.IH [of st1] by simp
  qed
qed

lemma on_fulfilled_maxRequests [simp]:
  "maxRequests (on_fulfilled e b st results) = maxRequests st"
proof (cases "each_results e b st results")
  case (Inl thrown)
  then have "maxRequests (snd thrown) = maxRequests st"
    using each_results_maxRequests [of e b st results] by (cases thrown) simp
  then show ?thesis using Inl by (cases thrown) (simp add: on_fulfilled_def)
next
  case (Inr st1)
  then have "maxRequests st1 = maxRequests st"
    using each_results_maxRequests [of e b st results] by simp
  then show ?thesis using Inr by (simp add: on_fulfilled_def)
qed

lemma deliver_maxRequests [simp]:
  "maxRequests (deliver e net b st) = maxRequests st"
  by (simp add: deliver_def on_rejected_def split: response.splits)

lemma combinedGet_rescheduled:
  assumes "combinedGet e st reqs sec = (st1, Some b)" "rescheduled b"
  shows "0 < maxRequests st \<and> maxRequests st1 = maxRequests st - 1
         \<and> remainingDatapoints b \<noteq> []"
  using assms unfolding combinedGet_def Let_def
  by (auto split: prod.splits if_splits)

text \<open>
  The rounds of one call as the event loop runs them: a pass of \<^verbatim>\<open>combinedGet\<close>, the
  answer of the network to its call, and, when the pass set the timer, the next pass
  on the remaining requests with \<^verbatim>\<open>secondaryRequest = true\<close>. Each further round
  lowers \<^verbatim>\<open>maxRequests\<close>, which is why the rounds end.
\<close>

function run_rounds ::
  "env \<Rightarrow> (request list \<Rightarrow> response) \<Rightarrow> state \<Rightarrow> request list \<Rightarrow> bool \<Rightarrow> state" where
  "run_rounds e net st combinedRequest secondaryRequest =
     (case combinedGet e st combinedRequest secondaryRequest of
        (st1, None) \<Rightarrow> st1
      | (st1, Some b) \<Rightarrow>
          if rescheduled b
          then run_rounds e net (deliver e net b st1) (remainingDatapoints b) True
          else deliver e net b st1)"
  by pat_completeness auto
termination
proof (relation "measure (\<lambda>(e, net, st, reqs, sec). nat (maxRequests st))", goal_cases)
  case 1
  show ?case by simp
next
  case (2 e net st combinedRequest secondaryRequest st1 out b)
  then have "combinedGet e st combinedRequest secondaryRequest = (st1, Some b)"
    by simp
  from combinedGet_rescheduled [OF this \<open>rescheduled b\<close>]
  show ?case by simp
qed

section \<open>The two loops of a pass\<close>






lemma first_occurrences_Nil [simp]: "first_occurrences dfr [] = []"
  by (simp add: first_occurrences_def)

lemma sharing_Nil [simp]: "sharing dfr [] k = []"
  by (simp add: sharing_def)

lemma recorded_Nil [simp]: "recorded dfr [] = Map.empty"
  by (rule ext) (simp add: recorded_def)















section \<open>Handling the response, when nothing throws\<close>











lemmas example_defs =
  example_env_def example_request_def combinedGet_def queue_def missed_def getCache_def
  dataAPI_def keyedRequest_def requestWithDateRange_def the_key_def Let_def emit_def

section \<open>The priority split\<close>




section \<open>The retry budget\<close>





lemmas response_defs =
  deliver_def on_fulfilled_def on_rejected_def each_result_def at_index_list_def
  handleWPError_def resolve_def truthy_def setCache_def List.map_filter_simps

section \<open>Error results\<close>





section \<open>Isolation of response keys\<close>





section \<open>Completion signals\<close>





section \<open>A key shared by several requests that comes back with an error\<close>

text \<open>
  C8. Three requests of one batch share a key and the response holds an error with
  reason \<^verbatim>\<open>forbidden\<close> for it: reading \<^verbatim>\<open>dataRequest\<close> at the list of three indexes
  gives \<^verbatim>\<open>undefined\<close>, the destructuring throws, and so \<^verbatim>\<open>handleWPError\<close> is never
  called: nothing is classified, no notification is registered and no callback is
  called. With a single request for the key the same response registers the
  permission alert once.
\<close>

theorem C8_shared_key_forbidden_never_classified:
  "List.map_filter classified
     (events (run_rounds example_env
        (\<lambda>rs. Fulfilled [(''modules::analytics::report'',
                 WPError ''forbidden'' ''no access''
                   (Some (ErrorData 403 (Some ''forbidden'') None)))])
        (dataAPI Map.empty)
        [example_request ''report'' 1 (Some (Callback 1 False)),
         example_request ''report'' 1 (Some (Callback 2 False)),
         example_request ''report'' 1 (Some (Callback 3 False))] False))
   = []
 \<and> List.map_filter registered
     (events (run_rounds example_env
        (\<lambda>rs. Fulfilled [(''modules::analytics::report'',
                 WPError ''forbidden'' ''no access''
                   (Some (ErrorData 403 (Some ''forbidden'') None)))])
        (dataAPI Map.empty)
        [example_request ''report'' 1 (Some (Callback 1 False)),
         example_request ''report'' 1 (Some (Callback 2 False)),
         example_request ''report'' 1 (Some (Callback 3 False))] False))
   = []
 \<and> List.map_filter invoked
     (events (run_rounds example_env
        (\<lambda>rs. Fulfilled [(''modules::analytics::report'',
                 WPError ''forbidden'' ''no access''
                   (Some (ErrorData 403 (Some ''forbidden'') None)))])
        (dataAPI Map.empty)
        [example_request ''report'' 1 (Some (Callback 1 False)),
         example_request ''report'' 1 (Some (Callback 2 False)),
         example_request ''report'' 1 (Some (Callback 3 False))] False))
   = []
 \<and> List.map_filter registered
     (events (run_rounds example_env
        (\<lambda>rs. Fulfilled [(''modules::analytics::report'',
                 WPError ''forbidden'' ''no access''
                   (Some (ErrorData 403 (Some ''forbidden'') None)))])
        (dataAPI Map.empty)
        [example_request ''report'' 1 (Some (Callback 1 False))] False))
   = [DashboardPermissionAlert]"
  by (subst run_rounds.simps, subst (2) run_rounds.simps, subst (3) run_rounds.simps,
      subst (4) run_rounds.simps)
     (simp add: example_defs response_defs)

section \<open>One request per key\<close>




section \<open>Normalising twice\<close>



lemma keyedRequest_priority [simp]: "priority (keyedRequest e r) = priority r"
  by (simp add: keyedRequest_def requestWithDateRange_def Let_def)

section \<open>Network calls and cache keys across a response\<close>

lemma settled_refl [simp]: "settled K st st"
  by (simp add: settled_def)









section \<open>Passes on requests that miss the cache\<close>





section \<open>Network calls of a fresh batch\<close>





end
